theory Spec2Isabelle
  imports Complex_Main "HOL-Library.Word" "HOL-Library.Sublist"
begin

section \<open>Numbers\<close>

text \<open>
  The program computes with JavaScript numbers. Except where the offline renderer
  computes durations and frame counts (see below), a number is a \<^typ>\<open>real\<close>: a finite
  value with exact arithmetic. \<open>NaN\<close>, the infinities and the rounding of IEEE doubles
  are outside the model there, and so is the rounding to single precision of a value
  stored in a \<open>Float32Array\<close> or an \<open>AudioParam\<close>: such an array is a list of reals. \<open>Math.round\<close> is \<^const>\<open>round\<close> (\<open>\<lfloor>x + 1/2\<rfloor>\<close>, half up, as in
  JavaScript), \<open>Math.floor\<close> is \<^const>\<open>floor\<close>, \<open>Math.ceil\<close> is \<^const>\<open>ceiling\<close>,
  \<open>Math.pow(2, x)\<close> is \<open>2 powr x\<close>. A field that TypeScript declares a number or a
  \<open>ReverbType\<close> holds one, so the fallbacks \<open>state.lowpass ?? 0\<close> and
  \<open>state.reverbType ?? 'delay'\<close> never apply.
\<close>

subsection \<open>Doubles\<close>

text \<open>
  The offline renderer turns durations into frame counts with \<open>Math.ceil\<close>, and there the
  rounding of each operation decides the result. Its arithmetic is that of IEEE 754
  binary64: an operation gives its exact result rounded to the nearest double, ties to
  the double with the even significand. The doubles of the binade \<open>2^e \<le> |x| < 2^(e+1)\<close>
  are the multiples of \<open>2^(e-52)\<close>; below \<open>2^-1022\<close> they are the multiples of \<open>2^-1074\<close>
  (the subnormal numbers). \<open>double x\<close> is the double that \<open>x\<close> rounds to. A result beyond
  the largest double, which IEEE arithmetic turns into an infinity, is outside the
  model.

  \<open>unitRoundoff\<close> is \<open>2^-53\<close>, the largest relative error of a rounding to a normal
  double; \<open>halfLeastDouble\<close> is \<open>2^-1075\<close>, the largest error of a rounding to a subnormal
  one.
\<close>

definition pow2 :: "int \<Rightarrow> real" where
  "pow2 e = (if 0 \<le> e then 2 ^ nat e else 1 / 2 ^ nat (- e))"

definition roundTiesToEven :: "real \<Rightarrow> int" where
  "roundTiesToEven y =
     (let f = \<lfloor>y\<rfloor>; r = y - of_int f
      in if r < 1 / 2 then f else if 1 / 2 < r then f + 1 else if even f then f else f + 1)"

definition binade :: "real \<Rightarrow> int" where
  "binade x = max \<lfloor>log 2 \<bar>x\<bar>\<rfloor> (- 1022)"

definition double :: "real \<Rightarrow> real" where
  "double x =
     (if x = 0 then 0
      else of_int (roundTiesToEven (x / pow2 (binade x - 52))) * pow2 (binade x - 52))"



section \<open>The effect state and the live chain (graph.ts)\<close>

datatype ReverbType = Delay | Original

record AudioGraphState =
  speed :: real
  detune :: real
  bass :: real
  treble :: real
  lowpass :: real
  highpass :: real
  reverb :: real
  reverbType :: ReverbType
  volume :: real

text \<open>
  \<open>createAudioGraph\<close> closes over the state record and the audio nodes. The model keeps
  the state and the node parameters that the setters write; the buffer source, the
  analyser and the playback clock (\<open>play\<close>, \<open>pause\<close>, \<open>seek\<close>) are left out: none of
  them writes the state record or a gain. The setters of
  \<open>createAudioGraphFromMediaElement\<close> write the state and the gains in the same way.
  \<open>GraphNodes\<close> are the node parameters, which
  the offline graph of the renderer has too; \<open>wetInput\<close> is the reverb bus connected to
  the wet gain. A fresh \<open>BiquadFilterNode\<close> has frequency 350.
\<close>

record GraphNodes =
  bassFilterGain :: real
  trebleFilterGain :: real
  lowpassFrequency :: real
  highpassFrequency :: real
  dryGain :: real
  wetGain :: real
  gainNode :: real
  wetInput :: ReverbType

record LiveGraph = GraphNodes +
  state :: AudioGraphState

definition lowpassCutoff :: "real \<Rightarrow> real" where
  "lowpassCutoff amount =
     (let lp = amount / 100 in if lp \<le> 0 then 20000 else 20000 * 2 powr (- 6.64 * lp))"

definition highpassCutoff :: "real \<Rightarrow> real" where
  "highpassCutoff amount =
     (let hp = amount / 100 in if hp \<le> 0 then 20 else 20 * 2 powr (7.64 * hp))"

definition setFilterFreqs :: "LiveGraph \<Rightarrow> LiveGraph" where
  "setFilterFreqs g =
     g\<lparr>lowpassFrequency := lowpassCutoff (lowpass (state g)),
       highpassFrequency := highpassCutoff (highpass (state g))\<rparr>"

definition connectActiveReverbToWet :: "LiveGraph \<Rightarrow> LiveGraph" where
  "connectActiveReverbToWet g = g\<lparr>wetInput := reverbType (state g)\<rparr>"

definition setReverbGains :: "real \<Rightarrow> LiveGraph \<Rightarrow> LiveGraph" where
  "setReverbGains amount g =
     (if reverbType (state g) = Delay
      then g\<lparr>dryGain := 1, wetGain := (amount / 100) * 0.45\<rparr>
      else (let w = (amount / 100) * 0.5 in g\<lparr>dryGain := 1 - w, wetGain := w\<rparr>))"

definition initialState :: AudioGraphState where
  "initialState =
     \<lparr>speed = 1.0, detune = 0, bass = 0, treble = 0, lowpass = 0, highpass = 0,
      reverb = 0, reverbType = Delay, volume = 1.0\<rparr>"

definition createAudioGraph :: LiveGraph where
  "createAudioGraph =
     setFilterFreqs (connectActiveReverbToWet
       \<lparr>bassFilterGain = 0, trebleFilterGain = 0,
        lowpassFrequency = 350, highpassFrequency = 350,
        dryGain = 1, wetGain = 0, gainNode = 1.0, wetInput = Delay,
        state = initialState\<rparr>)"

definition setSpeed :: "real \<Rightarrow> LiveGraph \<Rightarrow> LiveGraph" where
  "setSpeed v g = g\<lparr>state := (state g)\<lparr>speed := v\<rparr>\<rparr>"

definition setDetune :: "real \<Rightarrow> LiveGraph \<Rightarrow> LiveGraph" where
  "setDetune cents g = g\<lparr>state := (state g)\<lparr>detune := cents\<rparr>\<rparr>"

definition setBass :: "real \<Rightarrow> LiveGraph \<Rightarrow> LiveGraph" where
  "setBass db g = g\<lparr>state := (state g)\<lparr>bass := db\<rparr>, bassFilterGain := db\<rparr>"

definition setTreble :: "real \<Rightarrow> LiveGraph \<Rightarrow> LiveGraph" where
  "setTreble db g = g\<lparr>state := (state g)\<lparr>treble := db\<rparr>, trebleFilterGain := db\<rparr>"

definition setLowpass :: "real \<Rightarrow> LiveGraph \<Rightarrow> LiveGraph" where
  "setLowpass amount g =
     setFilterFreqs (g\<lparr>state := (state g)\<lparr>lowpass := max 0 (min 100 amount)\<rparr>\<rparr>)"

definition setHighpass :: "real \<Rightarrow> LiveGraph \<Rightarrow> LiveGraph" where
  "setHighpass amount g =
     setFilterFreqs (g\<lparr>state := (state g)\<lparr>highpass := max 0 (min 100 amount)\<rparr>\<rparr>)"

definition setReverb :: "real \<Rightarrow> LiveGraph \<Rightarrow> LiveGraph" where
  "setReverb amount g =
     (let g1 = g\<lparr>state := (state g)\<lparr>reverb := max 0 (min 100 amount)\<rparr>\<rparr>
      in setReverbGains (reverb (state g1)) g1)"

definition setReverbType :: "ReverbType \<Rightarrow> LiveGraph \<Rightarrow> LiveGraph" where
  "setReverbType ty g =
     (let g1 = connectActiveReverbToWet (g\<lparr>state := (state g)\<lparr>reverbType := ty\<rparr>\<rparr>)
      in setReverbGains (reverb (state g1)) g1)"

definition setVolume :: "real \<Rightarrow> LiveGraph \<Rightarrow> LiveGraph" where
  "setVolume v g = g\<lparr>state := (state g)\<lparr>volume := v\<rparr>, gainNode := v\<rparr>"

definition getState :: "LiveGraph \<Rightarrow> AudioGraphState" where
  "getState g = state g"

text \<open>A call of one of the parameter setters, and a sequence of such calls.\<close>

datatype SetterCall =
    SetSpeed real | SetDetune real | SetBass real | SetTreble real
  | SetLowpass real | SetHighpass real | SetReverb real | SetReverbType ReverbType
  | SetVolume real

fun call :: "SetterCall \<Rightarrow> LiveGraph \<Rightarrow> LiveGraph" where
  "call (SetSpeed v) g = setSpeed v g"
| "call (SetDetune v) g = setDetune v g"
| "call (SetBass v) g = setBass v g"
| "call (SetTreble v) g = setTreble v g"
| "call (SetLowpass v) g = setLowpass v g"
| "call (SetHighpass v) g = setHighpass v g"
| "call (SetReverb v) g = setReverb v g"
| "call (SetReverbType ty) g = setReverbType ty g"
| "call (SetVolume v) g = setVolume v g"

fun calls :: "SetterCall list \<Rightarrow> LiveGraph \<Rightarrow> LiveGraph" where
  "calls [] g = g"
| "calls (c # cs) g = calls cs (call c g)"

text \<open>
  Two notions for the results on the stored state: the three amount fields lie within
  \<open>[0,100]\<close>, and a call passes no negative number to \<open>setSpeed\<close> or \<open>setVolume\<close>.
\<close>

definition percentagesClamped :: "AudioGraphState \<Rightarrow> bool" where
  "percentagesClamped s =
     (0 \<le> lowpass s \<and> lowpass s \<le> 100 \<and> 0 \<le> highpass s \<and> highpass s \<le> 100
      \<and> 0 \<le> reverb s \<and> reverb s \<le> 100)"

fun nonNegativeArgument :: "SetterCall \<Rightarrow> bool" where
  "nonNegativeArgument (SetSpeed v) = (0 \<le> v)"
| "nonNegativeArgument (SetVolume v) = (0 \<le> v)"
| "nonNegativeArgument c = True"

section \<open>Sample conversion of the encoders (export.ts)\<close>

text \<open>
  The expression that \<open>encodeWAV\<close> evaluates for each sample before \<open>view.setInt16\<close>,
  and the one \<open>floatToInt16\<close> evaluates before the store into the \<open>Int16Array\<close>. Both
  stores keep the low 16 bits of the integer (\<^const>\<open>word_of_int\<close>); the value read back
  is \<^const>\<open>sint\<close> of the stored word.
\<close>

definition wavInt16 :: "real \<Rightarrow> int" where
  "wavInt16 x =
     (let sample = max (- 1) (min 1 x)
      in if sample < 0 then max (- 32768) \<lfloor>sample * 32768\<rfloor>
         else min 32767 \<lfloor>sample * 32767\<rfloor>)"

definition setInt16 :: "int \<Rightarrow> 16 word" where
  "setInt16 v = word_of_int v"

definition floatToInt16 :: "real list \<Rightarrow> 16 word list" where
  "floatToInt16 float32 =
     map (\<lambda>x. let s = max (- 1) (min 1 x)
              in word_of_int (if s < 0 then max (- 32768) \<lfloor>s * 32768\<rfloor>
                              else min 32767 \<lfloor>s * 32767\<rfloor>)) float32"

text \<open>The conversion as the specification words it: clamp, then scale by sign.\<close>

definition specInt16 :: "real \<Rightarrow> int" where
  "specInt16 x =
     (let c = (if x < - 1 then - 1 else if 1 < x then 1 else x)
      in if c < 0 then max (- 32768) \<lfloor>c * 32768\<rfloor> else min 32767 \<lfloor>c * 32767\<rfloor>)"

section \<open>Audio buffers and thrown values\<close>

text \<open>
  An \<open>AudioBuffer\<close> of the platform: \<open>bufferLength\<close> is its \<open>length\<close> in sample frames,
  \<open>samples b c i\<close> is sample \<open>i\<close> of channel \<open>c\<close>. Its \<open>duration\<close> is the double the
  platform computes by dividing the length by the sample rate. \<open>getChannelData\<close> hands
  out the \<open>bufferLength\<close> samples of a channel and raises the platform's \<open>IndexSizeError\<close>
  for a channel the buffer does not have.

  A thrown value is an \<open>Error\<close> object with its \<open>name\<close> and \<open>message\<close>, or any other
  value, kept as the string \<open>String(err)\<close> gives.
\<close>

datatype Thrown = ErrorObject (errorName: string) (errorMessage: string) | NonError string

record AudioBuffer =
  sampleRate :: real
  bufferLength :: nat
  numberOfChannels :: nat
  samples :: "nat \<Rightarrow> nat \<Rightarrow> real"

definition duration :: "AudioBuffer \<Rightarrow> real" where
  "duration b = double (real (bufferLength b) / sampleRate b)"

definition channel :: "AudioBuffer \<Rightarrow> nat \<Rightarrow> real list" where
  "channel b c = map (samples b c) [0..<bufferLength b]"

text \<open>
  The platform, as far as the renderer sees it: the constructor of an
  \<open>OfflineAudioContext\<close> and \<open>createBuffer\<close> may throw, \<open>startRendering\<close> may reject or
  deliver the samples of the rendered chunk; \<open>indexSizeError\<close> and \<open>rangeError\<close> are the
  values the platform throws from \<open>getChannelData\<close> and from \<open>TypedArray.set\<close>. \<open>mathPow\<close>
  is the engine's \<open>Math.pow\<close> at an exponent other than zero: the language leaves its
  accuracy to the engine.
\<close>

record OfflineGraph = GraphNodes +
  playbackRate :: real
  sourceDetune :: real

record Platform =
  newOfflineAudioContext :: "nat \<Rightarrow> int \<Rightarrow> real \<Rightarrow> Thrown option"
  startRendering ::
    "nat \<Rightarrow> int \<Rightarrow> real \<Rightarrow> AudioBuffer \<Rightarrow> OfflineGraph \<Rightarrow> real \<Rightarrow> real
       \<Rightarrow> Thrown + (nat \<Rightarrow> nat \<Rightarrow> real)"
  createBuffer :: "nat \<Rightarrow> nat \<Rightarrow> real \<Rightarrow> Thrown option"
  indexSizeError :: Thrown
  rangeError :: Thrown
  mathPow :: "real \<Rightarrow> real \<Rightarrow> real"

definition getChannelData :: "Platform \<Rightarrow> AudioBuffer \<Rightarrow> nat \<Rightarrow> Thrown + real list" where
  "getChannelData P b c =
     (if c < numberOfChannels b then Inr (channel b c) else Inl (indexSizeError P))"

definition typedArraySet :: "Platform \<Rightarrow> real list \<Rightarrow> real list \<Rightarrow> nat \<Rightarrow> Thrown + real list" where
  "typedArraySet P out src offset =
     (if length out < offset + length src then Inl (rangeError P)
      else Inr (take offset out @ src @ drop (offset + length src) out))"

section \<open>The offline renderer (export.ts)\<close>

definition RENDER_CHUNK_SECONDS :: real where
  "RENDER_CHUNK_SECONDS = 60"

definition buildEffectGraph :: "AudioGraphState \<Rightarrow> OfflineGraph" where
  "buildEffectGraph st =
     (let lp = lowpass st / 100;
          hp = highpass st / 100;
          rt = reverbType st;
          w = (reverb st / 100) * 0.5
      in \<lparr>bassFilterGain = bass st, trebleFilterGain = treble st,
          lowpassFrequency = (if lp \<le> 0 then 20000 else 20000 * 2 powr (- 6.64 * lp)),
          highpassFrequency = (if hp \<le> 0 then 20 else 20 * 2 powr (7.64 * hp)),
          dryGain = (if rt = Delay then 1 else 1 - w),
          wetGain = (if rt = Delay then (reverb st / 100) * 0.45 else w),
          gainNode = volume st,
          wetInput = rt,
          playbackRate = speed st, sourceDetune = detune st\<rparr>)"

text \<open>
  The live chain agrees with the offline graph when its two reverb gains are the ones
  \<open>buildEffectGraph\<close> sets for the stored state.
\<close>

definition gainsFollowState :: "LiveGraph \<Rightarrow> bool" where
  "gainsFollowState g =
     (dryGain g = dryGain (buildEffectGraph (state g))
      \<and> wetGain g = wetGain (buildEffectGraph (state g)))"

text \<open>
  From here on the arithmetic is that of doubles. \<open>Math.pow(x, y)\<close> is \<open>1\<close> at the
  exponent zero, as the language requires, and what the engine computes elsewhere.
\<close>

definition Math_pow :: "Platform \<Rightarrow> real \<Rightarrow> real \<Rightarrow> real" where
  "Math_pow P x y = (if y = 0 then 1 else mathPow P x y)"

definition effectiveRate :: "Platform \<Rightarrow> AudioGraphState \<Rightarrow> real" where
  "effectiveRate P st = double (speed st * Math_pow P 2 (double (detune st / 1200)))"

definition outputDuration :: "Platform \<Rightarrow> AudioBuffer \<Rightarrow> AudioGraphState \<Rightarrow> real" where
  "outputDuration P b st =
     (if 0 < effectiveRate P st then double (duration b / effectiveRate P st) else duration b)"

text \<open>
  The loop \<open>for (let t = 0; t < duration; t += RENDER_CHUNK_SECONDS)\<close>. Once \<open>t\<close> is so
  large that \<open>t + 60\<close> rounds to \<open>t\<close>, the loop does not end (an engine runs it until its
  memory is exhausted): then there is no list of chunk starts, and the renderer does
  not return.
\<close>

partial_function (option) chunkStartsFrom :: "real \<Rightarrow> real \<Rightarrow> real list option" where
  "chunkStartsFrom t d =
     (if t < d
      then Option.bind (chunkStartsFrom (double (t + RENDER_CHUNK_SECONDS)) d)
             (\<lambda>rest. Some (t # rest))
      else Some [])"

definition chunkStarts :: "real \<Rightarrow> real list option" where
  "chunkStarts d =
     map_option (\<lambda>cs. if length cs = 0 then [0] else cs) (chunkStartsFrom 0 d)"

definition chunkFrames :: "real \<Rightarrow> real \<Rightarrow> real \<Rightarrow> int" where
  "chunkFrames d sr outputStart =
     (let outputEnd = min (double (outputStart + RENDER_CHUNK_SECONDS)) d;
          chunkDuration = double (outputEnd - outputStart)
      in \<lceil>double (chunkDuration * sr)\<rceil>)"

text \<open>
  One turn of the rendering loop: the context is made for \<open>chunkFrames\<close> frames, the
  graph is built, the source is started on its window and the chunk is rendered. The
  rendered buffer has the channels, length and rate of its context.
\<close>

definition renderChunk ::
  "Platform \<Rightarrow> AudioBuffer \<Rightarrow> AudioGraphState \<Rightarrow> real \<Rightarrow> Thrown + AudioBuffer" where
  "renderChunk P b st outputStart =
     (let d = outputDuration P b st;
          outputEnd = min (double (outputStart + RENDER_CHUNK_SECONDS)) d;
          chunkDuration = double (outputEnd - outputStart);
          sourceOffset = double (outputStart * effectiveRate P st);
          sourceDuration = double (chunkDuration * effectiveRate P st);
          n = chunkFrames d (sampleRate b) outputStart
      in case newOfflineAudioContext P (numberOfChannels b) n (sampleRate b) of
           Some e \<Rightarrow> Inl e
         | None \<Rightarrow>
            (case startRendering P (numberOfChannels b) n (sampleRate b) b
                    (buildEffectGraph st) sourceOffset sourceDuration of
               Inl e \<Rightarrow> Inl e
             | Inr out \<Rightarrow>
                 Inr \<lparr>sampleRate = sampleRate b, bufferLength = nat n,
                      numberOfChannels = numberOfChannels b, samples = out\<rparr>))"

fun renderChunks ::
  "Platform \<Rightarrow> AudioBuffer \<Rightarrow> AudioGraphState \<Rightarrow> real list \<Rightarrow> Thrown + AudioBuffer list" where
  "renderChunks P b st [] = Inr []"
| "renderChunks P b st (s # ss) =
     (case renderChunk P b st s of
        Inl e \<Rightarrow> Inl e
      | Inr c \<Rightarrow> (case renderChunks P b st ss of Inl e \<Rightarrow> Inl e | Inr cs \<Rightarrow> Inr (c # cs)))"

text \<open>
  \<open>concatenateAudioBuffers\<close>: for one channel, the inner loop over the buffers writes
  each buffer's channel at the running offset of the output array.
\<close>

fun copyChannel ::
  "Platform \<Rightarrow> nat \<Rightarrow> AudioBuffer list \<Rightarrow> real list \<Rightarrow> nat \<Rightarrow> Thrown + real list" where
  "copyChannel P ch [] out offset = Inr out"
| "copyChannel P ch (buf # bufs) out offset =
     (case getChannelData P buf ch of
        Inl e \<Rightarrow> Inl e
      | Inr src \<Rightarrow>
         (case typedArraySet P out src offset of
            Inl e \<Rightarrow> Inl e
          | Inr out' \<Rightarrow> copyChannel P ch bufs out' (offset + bufferLength buf)))"

fun copyChannels ::
  "Platform \<Rightarrow> AudioBuffer list \<Rightarrow> nat \<Rightarrow> nat list \<Rightarrow> Thrown + real list list" where
  "copyChannels P buffers totalLength [] = Inr []"
| "copyChannels P buffers totalLength (ch # chs) =
     (case copyChannel P ch buffers (replicate totalLength 0) 0 of
        Inl e \<Rightarrow> Inl e
      | Inr out \<Rightarrow>
         (case copyChannels P buffers totalLength chs of
            Inl e \<Rightarrow> Inl e
          | Inr outs \<Rightarrow> Inr (out # outs)))"

definition concatenateAudioBuffers ::
  "Platform \<Rightarrow> AudioBuffer list \<Rightarrow> nat \<Rightarrow> real \<Rightarrow> Thrown + AudioBuffer" where
  "concatenateAudioBuffers P buffers channels sr =
     (let totalLength = foldl (\<lambda>acc b. acc + bufferLength b) 0 buffers
      in case createBuffer P channels totalLength sr of
           Some e \<Rightarrow> Inl e
         | None \<Rightarrow>
            (case copyChannels P buffers totalLength [0..<channels] of
               Inl e \<Rightarrow> Inl e
             | Inr outs \<Rightarrow>
                 Inr \<lparr>sampleRate = sr, bufferLength = totalLength,
                      numberOfChannels = channels,
                      samples = (\<lambda>ch i. outs ! ch ! i)\<rparr>))"

definition stringIncludes :: "string \<Rightarrow> string \<Rightarrow> bool" where
  "stringIncludes msg sub = sublist sub msg"

definition outOfMemoryError :: Thrown where
  "outOfMemoryError =
     ErrorObject ''Error''
       ''Render failed: file may be too long or system ran out of memory. Try a shorter clip or fewer effects.''"

text \<open>
  \<open>renderOffline\<close>: the body of the \<open>try\<close> block, then the \<open>catch\<close> handler on what it
  threw. The progress callback and the yield between chunks do not change the result
  and are left out. \<open>None\<close> is a call that does not return.
\<close>

definition renderOfflineBody ::
  "Platform \<Rightarrow> AudioBuffer \<Rightarrow> AudioGraphState \<Rightarrow> (Thrown + AudioBuffer) option" where
  "renderOfflineBody P b st =
     (case chunkStarts (outputDuration P b st) of
        None \<Rightarrow> None
      | Some starts \<Rightarrow>
          Some (case renderChunks P b st starts of
                  Inl e \<Rightarrow> Inl e
                | Inr renderedChunks \<Rightarrow>
                    concatenateAudioBuffers P renderedChunks (numberOfChannels b) (sampleRate b)))"

definition catchMessage :: "Thrown \<Rightarrow> string" where
  "catchMessage err = (case err of ErrorObject n m \<Rightarrow> m | NonError s \<Rightarrow> s)"

definition catchHandler :: "Thrown \<Rightarrow> Thrown" where
  "catchHandler err =
     (let msg = catchMessage err
      in if stringIncludes msg ''RangeError'' \<or> stringIncludes msg ''memory''
            \<or> stringIncludes msg ''allocate''
         then outOfMemoryError
         else err)"

definition renderOffline ::
  "Platform \<Rightarrow> AudioBuffer \<Rightarrow> AudioGraphState \<Rightarrow> (Thrown + AudioBuffer) option" where
  "renderOffline P b st =
     (case renderOfflineBody P b st of
        None \<Rightarrow> None
      | Some (Inr rendered) \<Rightarrow> Some (Inr rendered)
      | Some (Inl err) \<Rightarrow> Some (Inl (catchHandler err)))"




text \<open>
  The inputs the results are evaluated at: a platform that renders silence and whose
  \<open>Math.pow\<close> is correctly rounded, one whose every context fails with the message of a
  failed array buffer allocation, a stereo buffer of 90 frames at 1 Hz (two chunks), a
  stereo buffer of 2646001 frames at 44100 Hz (one frame more than 60 seconds), and the
  10-second stereo buffer at 44100 Hz with the Nightcore state.
\<close>

definition quietPlatform :: Platform where
  "quietPlatform =
     \<lparr>newOfflineAudioContext = (\<lambda>c n r. None),
      startRendering = (\<lambda>c n r b g so sd. Inr (\<lambda>ch i. 0)),
      createBuffer = (\<lambda>c n r. None),
      indexSizeError = ErrorObject ''IndexSizeError'' ''index'',
      rangeError = ErrorObject ''RangeError'' ''offset'',
      mathPow = (\<lambda>x y. double (x powr y))\<rparr>"

definition ninetySeconds :: AudioBuffer where
  "ninetySeconds = \<lparr>sampleRate = 1, bufferLength = 90, numberOfChannels = 2, samples = (\<lambda>c i. 0)\<rparr>"

definition allocationFails :: Platform where
  "allocationFails =
     quietPlatform\<lparr>newOfflineAudioContext :=
       (\<lambda>c n r. Some (ErrorObject ''RangeError'' ''Array buffer allocation failed''))\<rparr>"




section \<open>Truncation for the ID3v1 tag (export.ts)\<close>

text \<open>
  A JavaScript string is a sequence of UTF-16 code units. \<open>TextEncoder.encode\<close> reads
  it as scalar values (a high surrogate followed by a low one is one scalar value, any
  other surrogate is replaced by \<open>U+FFFD\<close>) and writes each in UTF-8.
\<close>

definition isHighSurrogate :: "16 word \<Rightarrow> bool" where
  "isHighSurrogate u = (0xD800 \<le> u \<and> u \<le> 0xDBFF)"

definition isLowSurrogate :: "16 word \<Rightarrow> bool" where
  "isLowSurrogate u = (0xDC00 \<le> u \<and> u \<le> 0xDFFF)"

definition utf8Bytes :: "nat \<Rightarrow> 8 word list" where
  "utf8Bytes cp =
     (if cp < 0x80 then [of_nat cp]
      else if cp < 0x800 then [of_nat (0xC0 + cp div 64), of_nat (0x80 + cp mod 64)]
      else if cp < 0x10000 then
        [of_nat (0xE0 + cp div 4096), of_nat (0x80 + (cp div 64) mod 64),
         of_nat (0x80 + cp mod 64)]
      else
        [of_nat (0xF0 + cp div 262144), of_nat (0x80 + (cp div 4096) mod 64),
         of_nat (0x80 + (cp div 64) mod 64), of_nat (0x80 + cp mod 64)])"

definition loneUnit :: "16 word \<Rightarrow> nat" where
  "loneUnit u = (if isHighSurrogate u \<or> isLowSurrogate u then 0xFFFD else unat u)"

fun textEncode :: "16 word list \<Rightarrow> 8 word list" where
  "textEncode [] = []"
| "textEncode [u] = utf8Bytes (loneUnit u)"
| "textEncode (u # l # rest) =
     (if isHighSurrogate u \<and> isLowSurrogate l
      then utf8Bytes (0x10000 + (unat u - 0xD800) * 0x400 + (unat l - 0xDC00)) @ textEncode rest
      else utf8Bytes (loneUnit u) @ textEncode (l # rest))"

definition ID3V1_MAX_BYTES :: nat where
  "ID3V1_MAX_BYTES = 30"

definition ID3V1_YEAR_MAX_BYTES :: nat where
  "ID3V1_YEAR_MAX_BYTES = 4"

text \<open>
  \<open>while (s.length > 0 && enc.encode(s).length > maxBytes) s = s.slice(0, -1)\<close>: the
  last code unit is dropped until the encoding fits. The two callers pass 30 and 4 for
  \<open>maxBytes\<close>.
\<close>

function truncateForId3v1 :: "16 word list \<Rightarrow> nat \<Rightarrow> 16 word list" where
  "truncateForId3v1 s maxBytes =
     (if 0 < length s \<and> maxBytes < length (textEncode s)
      then truncateForId3v1 (butlast s) maxBytes
      else s)"
  by pat_completeness auto
termination
  by (relation "measure (\<lambda>(s, m). length s)") auto

declare truncateForId3v1.simps [simp del]

text \<open>
  Notions for the results on the truncation: a string without surrogate code units
  (every character in the Basic Multilingual Plane) and a string of ASCII characters.
  \<open>emojiTitle\<close> is the title of 27 letters \<open>a\<close> followed by \<open>U+1F600\<close>, a surrogate pair.
\<close>

definition emojiTitle :: "16 word list" where
  "emojiTitle = replicate 27 0x61 @ [0xD83D, 0xDE00]"

definition noSurrogates :: "16 word list \<Rightarrow> bool" where
  "noSurrogates s = (\<forall>u \<in> set s. \<not> isHighSurrogate u \<and> \<not> isLowSurrogate u)"

definition asciiOnly :: "16 word list \<Rightarrow> bool" where
  "asciiOnly s = (\<forall>u \<in> set s. u < 0x80)"

section \<open>The tempo estimator (bpm.ts)\<close>

definition FRAME_LEN :: nat where
  "FRAME_LEN = 2048"

definition HOP_LEN :: nat where
  "HOP_LEN = 1024"

definition MIN_BPM :: int where
  "MIN_BPM = 60"

definition MAX_BPM :: int where
  "MAX_BPM = 200"

definition PEAK_THRESHOLD_PERCENTILE :: real where
  "PEAK_THRESHOLD_PERCENTILE = 0.85"

definition MAX_SAMPLES :: nat where
  "MAX_SAMPLES = nat \<lfloor>60 * 44.1 * 1000 :: real\<rfloor>"

text \<open>
  \<open>getMonoSamples\<close>. In the mixing loop the channels read are below \<open>numberOfChannels\<close>,
  so only the first \<open>getChannelData(0)\<close> can throw.
\<close>

definition mixSample :: "AudioBuffer \<Rightarrow> real list \<Rightarrow> nat \<Rightarrow> real" where
  "mixSample b ch0 i =
     fold (\<lambda>c sum. sum + channel b c ! i) [1..<numberOfChannels b] (ch0 ! i)
       / real (numberOfChannels b)"

definition getMonoSamples :: "Platform \<Rightarrow> AudioBuffer \<Rightarrow> nat \<Rightarrow> Thrown + real list" where
  "getMonoSamples P b maxSamples =
     (let numCh = numberOfChannels b;
          len = min (bufferLength b) maxSamples
      in if len \<le> 0 then Inr []
         else if numCh = 1 then
           (case getChannelData P b 0 of
              Inl e \<Rightarrow> Inl e
            | Inr ch \<Rightarrow> Inr (if length ch \<le> len then ch else take len ch))
         else
           (case getChannelData P b 0 of
              Inl e \<Rightarrow> Inl e
            | Inr ch0 \<Rightarrow> Inr (map (mixSample b ch0) [0..<len])))"

definition frameEnergy :: "real list \<Rightarrow> real list" where
  "frameEnergy monoData =
     (let numFrames = (length monoData - FRAME_LEN) div HOP_LEN + 1
      in map (\<lambda>f. let start = f * HOP_LEN
                  in sqrt (fold (\<lambda>i sum. sum + monoData ! (start + i) * monoData ! (start + i))
                             [0..<FRAME_LEN] 0 / real FRAME_LEN))
           [0..<numFrames])"

definition onsetStrength :: "real list \<Rightarrow> real list" where
  "onsetStrength energy =
     map (\<lambda>f. if f = 0 then 0
              else (let diff = energy ! f - energy ! (f - 1) in if 0 < diff then diff else 0))
       [0..<length energy]"

definition pickPeaks :: "real list \<Rightarrow> nat list" where
  "pickPeaks onset =
     (let numFrames = length onset;
          sorted = sort onset;
          threshIdx = nat \<lfloor>real (numFrames - 1) * PEAK_THRESHOLD_PERCENTILE\<rfloor>;
          threshold = sorted ! threshIdx
      in filter (\<lambda>f. let v = onset ! f
                     in \<not> v < threshold \<and> onset ! (f - 1) \<le> v \<and> onset ! (f - 2) \<le> v
                        \<and> onset ! (f + 1) \<le> v \<and> onset ! (f + 2) \<le> v)
           [2..<numFrames - 2])"

definition interOnsetIntervals :: "real \<Rightarrow> nat list \<Rightarrow> real list" where
  "interOnsetIntervals sr peakFrames =
     (let frameToTime = real HOP_LEN / sr;
          peakTimes = map (\<lambda>f. real f * frameToTime) peakFrames
      in filter (\<lambda>dt. 0.2 \<le> dt \<and> dt \<le> 2)
           (map (\<lambda>i. peakTimes ! i - peakTimes ! (i - 1)) [1..<length peakTimes]))"

definition binMs :: real where
  "binMs = 20"

definition minPeriodMs :: real where
  "minPeriodMs = 60000 / real_of_int MAX_BPM"

definition maxPeriodMs :: real where
  "maxPeriodMs = 60000 / real_of_int MIN_BPM"

definition numBins :: nat where
  "numBins = nat \<lceil>(maxPeriodMs - minPeriodMs) / binMs\<rceil>"

definition intervalHistogram :: "real list \<Rightarrow> nat list" where
  "intervalHistogram intervals =
     fold (\<lambda>dt hist.
             let ms = dt * 1000
             in if ms < minPeriodMs \<or> maxPeriodMs < ms then hist
                else (let bin = \<lfloor>(ms - minPeriodMs) / binMs\<rfloor>
                      in if 0 \<le> bin \<and> bin < int numBins
                         then hist[nat bin := hist ! nat bin + 1]
                         else hist))
       intervals (replicate numBins 0)"

definition findBestBin :: "nat list \<Rightarrow> nat" where
  "findBestBin hist =
     fst (fold (\<lambda>b (bestBin, bestCount).
                  if bestCount < hist ! b then (b, hist ! b) else (bestBin, bestCount))
            [0..<numBins] (0, 0))"

definition periodOfBin :: "nat \<Rightarrow> real" where
  "periodOfBin bestBin = minPeriodMs + (real bestBin + 0.5) * binMs"

definition octaveCorrect :: "int \<Rightarrow> int" where
  "octaveCorrect bpm =
     (if 80 \<le> bpm \<and> bpm \<le> 200 then bpm
      else if 40 \<le> bpm \<and> bpm < 80 then bpm * 2
      else if 200 < bpm \<and> bpm \<le> 400 then round (real_of_int bpm / 2)
      else bpm)"

definition bpmOfBin :: "nat \<Rightarrow> int" where
  "bpmOfBin bestBin =
     (let periodMs = periodOfBin bestBin;
          bpm = round (60000 / periodMs);
          bpm = octaveCorrect bpm
      in max MIN_BPM (min MAX_BPM bpm))"

definition detectBPMInner :: "Platform \<Rightarrow> AudioBuffer \<Rightarrow> Thrown + int option" where
  "detectBPMInner P b =
     (case getMonoSamples P b MAX_SAMPLES of
        Inl e \<Rightarrow> Inl e
      | Inr monoData \<Rightarrow>
          if length monoData < FRAME_LEN * 2 then Inr None
          else
            (let onset = onsetStrength (frameEnergy monoData);
                 peakFrames = pickPeaks onset
             in if length peakFrames < 4 then Inr None
                else
                  (let intervals = interOnsetIntervals (sampleRate b) peakFrames
                   in if length intervals < 2 then Inr None
                      else Inr (Some (bpmOfBin (findBestBin (intervalHistogram intervals)))))))"

text \<open>\<open>detectBPM\<close>: whatever the inner function throws becomes \<open>null\<close>.\<close>

definition detectBPM :: "Platform \<Rightarrow> AudioBuffer \<Rightarrow> int option" where
  "detectBPM P b = (case detectBPMInner P b of Inl e \<Rightarrow> None | Inr r \<Rightarrow> r)"



text \<open>
  Notions for the results on the estimator: the histogram that \<open>detectBPMInner\<close>
  builds from the mono samples, and the state of its best-bin loop after the first \<open>k\<close>
  bins. Then inputs the results are evaluated at: a mono buffer of \<open>n\<close> zero samples
  at a given sample rate, and a buffer without channels.
\<close>

definition onsetHistogram :: "real \<Rightarrow> real list \<Rightarrow> nat list" where
  "onsetHistogram sr monoData =
     intervalHistogram (interOnsetIntervals sr (pickPeaks (onsetStrength (frameEnergy monoData))))"

definition bestSoFar :: "nat list \<Rightarrow> nat \<Rightarrow> nat \<times> nat" where
  "bestSoFar hist k =
     fold (\<lambda>b (bestBin, bestCount).
             if bestCount < hist ! b then (b, hist ! b) else (bestBin, bestCount))
       [0..<k] (0, 0)"



text \<open>
  A click track at 44100 Hz: 44 blocks of 1024 samples in a pattern of 10 blocks
  (0.232 s); each block starts with 1, 97, 31 or 1 samples of value 1, as
  \<open>clickBlocks\<close> says, and is silent after them. \<open>clickEnergy\<close> holds the frame energies of
  one pattern, \<open>clickOnsets\<close> the onset strengths of the 43 frames.
\<close>

definition clickBlocks :: "nat list" where
  "clickBlocks = [1, 97, 31, 1, 1, 1, 1, 1, 1, 1]"

definition clickTrack :: AudioBuffer where
  "clickTrack =
     \<lparr>sampleRate = 44100, bufferLength = 45056, numberOfChannels = 1,
      samples = (\<lambda>c i. if i mod 1024 < clickBlocks ! ((i div 1024) mod 10) then 1 else 0)\<rparr>"

definition clickEnergy :: "real list" where
  "clickEnergy = [7/32, 8/32, 4/32, 1/32, 1/32, 1/32, 1/32, 1/32, 1/32, 1/32]"

definition clickOnsets :: "real list" where
  "clickOnsets = [0, 1/32, 0, 0, 0, 0, 0, 0, 0, 0, 3/16, 1/32, 0, 0, 0, 0, 0, 0, 0, 0, 3/16, 1/32, 0, 0, 0, 0, 0, 0, 0, 0, 3/16, 1/32, 0, 0, 0, 0, 0, 0, 0, 0, 3/16, 1/32, 0]"

section \<open>Sample conversion: results\<close>

lemma wavInt16_range: "- 32768 \<le> wavInt16 x \<and> wavInt16 x \<le> 32767"
proof -
  let ?s = "max (- 1) (min 1 x)"
  have lo: "- 1 \<le> ?s" and hi: "?s \<le> 1" by simp_all
  show ?thesis
  proof (cases "?s < 0")
    case True
    then have "\<lfloor>?s * 32768\<rfloor> < 0" by (simp add: floor_less_iff mult_less_0_iff)
    with True show ?thesis by (simp add: wavInt16_def Let_def)
  next
    case False
    then have "0 \<le> \<lfloor>?s * 32767\<rfloor>" by simp
    with False show ?thesis by (simp add: wavInt16_def Let_def)
  qed
qed

lemma wavInt16_spec: "wavInt16 x = specInt16 x"
  by (simp add: wavInt16_def specInt16_def Let_def max_def min_def)

lemma sint_setInt16: "- 32768 \<le> v \<Longrightarrow> v \<le> 32767 \<Longrightarrow> sint (setInt16 v) = v"
  by (simp add: setInt16_def signed_of_int signed_take_bit_int_eq_self)

lemma floatToInt16_spec: "map sint (floatToInt16 xs) = map specInt16 xs"
proof -
  have "sint (word_of_int (wavInt16 x) :: 16 word) = specInt16 x" for x
    using wavInt16_range [of x] sint_setInt16 [of "wavInt16 x"]
    by (simp add: setInt16_def wavInt16_spec)
  then show ?thesis
    by (simp add: floatToInt16_def wavInt16_def Let_def)
qed

text \<open>
  C7. For every float sample \<open>x\<close>, the 16-bit integer that \<open>encodeWAV\<close> writes, and the
  one \<open>floatToInt16\<close> stores for the MP3 encoder, is the specified value: with \<open>c\<close> the
  sample clamped to \<open>[-1,1]\<close>, \<open>max (-32768) \<lfloor>c * 32768\<rfloor>\<close> when \<open>c < 0\<close> and
  \<open>min 32767 \<lfloor>c * 32767\<rfloor>\<close> otherwise; that value lies in \<open>[-32768, 32767]\<close>, so the
  16-bit store does not wrap.
\<close>

theorem sample_conversion_int16:
  "sint (setInt16 (wavInt16 x)) = specInt16 x
   \<and> map sint (floatToInt16 xs) = map specInt16 xs
   \<and> - 32768 \<le> specInt16 x \<and> specInt16 x \<le> 32767"
  using wavInt16_range [of x] sint_setInt16 [of "wavInt16 x"] floatToInt16_spec [of xs]
  by (simp add: wavInt16_spec)


section \<open>The live chain: results\<close>

lemma call_percentages: "percentagesClamped (state g) \<Longrightarrow> percentagesClamped (state (call c g))"
  by (cases c)
    (simp_all add: percentagesClamped_def setSpeed_def setDetune_def setBass_def setTreble_def
      setLowpass_def setHighpass_def setReverb_def setReverbType_def setVolume_def
      setFilterFreqs_def setReverbGains_def connectActiveReverbToWet_def Let_def)

lemma calls_percentages:
  "percentagesClamped (state g) \<Longrightarrow> percentagesClamped (state (calls cs g))"
  by (induction cs arbitrary: g) (simp_all add: call_percentages)

lemma call_speed_volume:
  "0 \<le> speed (state g) \<and> 0 \<le> volume (state g) \<Longrightarrow> nonNegativeArgument c
   \<Longrightarrow> 0 \<le> speed (state (call c g)) \<and> 0 \<le> volume (state (call c g))"
  by (cases c)
    (simp_all add: setSpeed_def setDetune_def setBass_def setTreble_def
      setLowpass_def setHighpass_def setReverb_def setReverbType_def setVolume_def
      setFilterFreqs_def setReverbGains_def connectActiveReverbToWet_def Let_def)

lemma calls_speed_volume:
  "0 \<le> speed (state g) \<and> 0 \<le> volume (state g) \<Longrightarrow> \<forall>c \<in> set cs. nonNegativeArgument c
   \<Longrightarrow> 0 \<le> speed (state (calls cs g)) \<and> 0 \<le> volume (state (calls cs g))"
proof (induction cs arbitrary: g)
  case Nil
  then show ?case by simp
next
  case (Cons c cs)
  from Cons.prems have "0 \<le> speed (state (call c g)) \<and> 0 \<le> volume (state (call c g))"
    using call_speed_volume [of g c] by simp
  with Cons show ?case by simp
qed

lemma createAudioGraph_state: "state createAudioGraph = initialState"
  by (simp add: createAudioGraph_def setFilterFreqs_def connectActiveReverbToWet_def)

text \<open>
  C1, as amended. After every sequence of setter calls on a fresh live chain, the
  stored \<open>lowpass\<close>, \<open>highpass\<close> and \<open>reverb\<close> lie in \<open>[0,100]\<close>. \<open>setSpeed\<close> and \<open>setVolume\<close>
  store their argument as it is: \<open>speed\<close> and \<open>volume\<close> are non-negative when no call
  passed a negative number to them.
\<close>

theorem state_clamping_amended:
  "percentagesClamped (getState (calls cs createAudioGraph))
   \<and> ((\<forall>c \<in> set cs. nonNegativeArgument c) \<longrightarrow>
        0 \<le> speed (getState (calls cs createAudioGraph))
        \<and> 0 \<le> volume (getState (calls cs createAudioGraph)))
   \<and> speed (getState (setSpeed v g)) = v \<and> volume (getState (setVolume v g)) = v"
proof -
  have init: "percentagesClamped (state createAudioGraph)"
    by (simp add: createAudioGraph_state initialState_def percentagesClamped_def)
  have init2: "0 \<le> speed (state createAudioGraph) \<and> 0 \<le> volume (state createAudioGraph)"
    by (simp add: createAudioGraph_state initialState_def)
  show ?thesis
    using calls_percentages [OF init, of cs] calls_speed_volume [OF init2, of cs]
    by (simp add: getState_def setSpeed_def setVolume_def)
qed

text \<open>The amended C1 at a sequence with out-of-range amounts.\<close>

theorem state_clamping_amended_witness:
  "nonNegativeArgument (SetLowpass 150) \<and> nonNegativeArgument (SetSpeed 2)
   \<and> nonNegativeArgument (SetReverb (- 5)) \<and> nonNegativeArgument (SetVolume 0.5)
   \<and> percentagesClamped (getState (calls [SetLowpass 150, SetSpeed 2, SetReverb (- 5), SetVolume 0.5] createAudioGraph))
   \<and> 0 \<le> speed (getState (calls [SetLowpass 150, SetSpeed 2, SetReverb (- 5), SetVolume 0.5] createAudioGraph))
   \<and> 0 \<le> volume (getState (calls [SetLowpass 150, SetSpeed 2, SetReverb (- 5), SetVolume 0.5] createAudioGraph))"
  using state_clamping_amended [of "[SetLowpass 150, SetSpeed 2, SetReverb (- 5), SetVolume 0.5]"]
  by simp

text \<open>
  C1 as stated fails: \<open>setSpeed(-1)\<close> stores a negative speed, \<open>setVolume(-1)\<close> a
  negative volume.
\<close>

theorem state_clamping_counterexample:
  "speed (getState (calls [SetSpeed (- 1)] createAudioGraph)) < 0
   \<and> volume (getState (calls [SetVolume (- 1)] createAudioGraph)) < 0"
  by (simp add: getState_def setSpeed_def setVolume_def)

subsection \<open>Dry and wet gains\<close>

lemma call_gains: "gainsFollowState g \<Longrightarrow> gainsFollowState (call c g)"
  by (cases c)
    (simp_all add: gainsFollowState_def buildEffectGraph_def setSpeed_def setDetune_def
      setBass_def setTreble_def setLowpass_def setHighpass_def setReverb_def
      setReverbType_def setVolume_def setFilterFreqs_def setReverbGains_def
      connectActiveReverbToWet_def Let_def)

lemma calls_gains: "gainsFollowState g \<Longrightarrow> gainsFollowState (calls cs g)"
  by (induction cs arbitrary: g) (simp_all add: call_gains)

lemma createAudioGraph_gains: "gainsFollowState createAudioGraph"
  by (simp add: gainsFollowState_def createAudioGraph_def setFilterFreqs_def
      connectActiveReverbToWet_def initialState_def buildEffectGraph_def Let_def)

text \<open>
  C5. For a reverb amount \<open>a\<close> in \<open>[0,100]\<close>: after \<open>setReverb(a)\<close> on a live chain whose
  algorithm is the delay (comb) one, the dry gain is 1 and the wet gain is
  \<open>(a/100) * 0.45\<close>; with the original (convolution) one the wet gain is \<open>(a/100) * 0.5\<close>
  and the dry gain is \<open>1 - wet\<close>, so they add up to 1. \<open>buildEffectGraph\<close> sets the same
  gains in the offline graph from a state whose \<open>reverb\<close> is \<open>a\<close>, and after every
  sequence of setter calls the live gains are those the offline graph gets from the
  stored state.
\<close>

theorem reverb_gain_policy:
  assumes "0 \<le> a" and "a \<le> 100"
  shows "(reverbType (state g) = Delay \<longrightarrow>
            dryGain (setReverb a g) = 1 \<and> wetGain (setReverb a g) = (a / 100) * 0.45)
       \<and> (reverbType (state g) = Original \<longrightarrow>
            wetGain (setReverb a g) = (a / 100) * 0.5
            \<and> dryGain (setReverb a g) = 1 - wetGain (setReverb a g)
            \<and> dryGain (setReverb a g) + wetGain (setReverb a g) = 1)
       \<and> (reverb st = a \<and> reverbType st = Delay \<longrightarrow>
            dryGain (buildEffectGraph st) = 1
            \<and> wetGain (buildEffectGraph st) = (a / 100) * 0.45)
       \<and> (reverb st = a \<and> reverbType st = Original \<longrightarrow>
            wetGain (buildEffectGraph st) = (a / 100) * 0.5
            \<and> dryGain (buildEffectGraph st) = 1 - wetGain (buildEffectGraph st)
            \<and> dryGain (buildEffectGraph st) + wetGain (buildEffectGraph st) = 1)
       \<and> dryGain (calls cs createAudioGraph)
           = dryGain (buildEffectGraph (getState (calls cs createAudioGraph)))
       \<and> wetGain (calls cs createAudioGraph)
           = wetGain (buildEffectGraph (getState (calls cs createAudioGraph)))"
proof -
  have live: "gainsFollowState (calls cs createAudioGraph)"
    by (rule calls_gains [OF createAudioGraph_gains])
  have clamp: "max 0 (min 100 a) = a" using assms by simp
  have neq: "reverbType (state g) \<noteq> Delay \<longleftrightarrow> reverbType (state g) = Original"
    by (cases "reverbType (state g)") simp_all
  have neq2: "reverbType st \<noteq> Delay \<longleftrightarrow> reverbType st = Original"
    by (cases "reverbType st") simp_all
  show ?thesis
    using live neq neq2
    by (auto simp add: gainsFollowState_def getState_def setReverb_def setReverbGains_def
        buildEffectGraph_def Let_def clamp)
qed

text \<open>C5 at the amount 40, for both algorithms, live and offline.\<close>

theorem reverb_gain_policy_witness:
  "(0::real) \<le> 40 \<and> (40::real) \<le> 100
   \<and> dryGain (setReverb 40 createAudioGraph) = 1
   \<and> wetGain (setReverb 40 createAudioGraph) = (40 / 100) * 0.45
   \<and> wetGain (setReverb 40 (setReverbType Original createAudioGraph)) = (40 / 100) * 0.5
   \<and> dryGain (setReverb 40 (setReverbType Original createAudioGraph)) = 1 - (40 / 100) * 0.5
   \<and> dryGain (buildEffectGraph (initialState\<lparr>reverb := 40\<rparr>)) = 1
   \<and> wetGain (buildEffectGraph (initialState\<lparr>reverb := 40, reverbType := Original\<rparr>))
       = (40 / 100) * 0.5"
proof -
  have s1: "reverbType (state createAudioGraph) = Delay"
    by (simp add: createAudioGraph_state initialState_def)
  have s2: "reverbType (state (setReverbType Original createAudioGraph)) = Original"
    by (simp add: setReverbType_def setReverbGains_def connectActiveReverbToWet_def Let_def)
  have a: "(0::real) \<le> 40" "(40::real) \<le> 100" by simp_all
  show ?thesis
    using reverb_gain_policy [OF a, of createAudioGraph "initialState\<lparr>reverb := 40\<rparr>" "[]"]
      reverb_gain_policy [OF a, of "setReverbType Original createAudioGraph"
        "initialState\<lparr>reverb := 40, reverbType := Original\<rparr>" "[]"] s1 s2
    by (simp add: initialState_def)
qed

section \<open>Doubles: results\<close>





lemma roundTiesToEven_of_int: "roundTiesToEven (of_int n) = n"
  by (simp add: roundTiesToEven_def)




lemma double_0: "double 0 = 0"
  by (simp add: double_def)



lemma double_int:
  assumes "\<bar>n\<bar> < 2 ^ 53"
  shows "double (of_int n) = of_int n"
proof (cases "n = 0")
  case True
  then show ?thesis by (simp add: double_def)
next
  case False
  define e where "e = \<lfloor>log 2 \<bar>real_of_int n\<bar>\<rfloor>"
  have pos: "0 < \<bar>real_of_int n\<bar>" using False by simp
  have one: "1 \<le> \<bar>real_of_int n\<bar>" using False by (simp add: abs_if)
  have bounds: "2 powr (of_int e) \<le> \<bar>real_of_int n\<bar>" "\<bar>real_of_int n\<bar> < 2 powr (of_int (e + 1))"
    using floor_log_eq_powr_iff [OF pos, of 2 e] by (simp_all add: e_def)
  have e0: "0 \<le> e"
    unfolding e_def using one by (simp add: zero_le_log_cancel_iff)
  have e52: "e \<le> 52"
  proof (rule ccontr)
    assume "\<not> e \<le> 52"
    then have "53 \<le> e" by simp
    then have "(2::real) powr 53 \<le> 2 powr (of_int e)" by (intro powr_mono) simp_all
    with bounds(1) have "(2::real) ^ 53 \<le> \<bar>real_of_int n\<bar>" by simp
    moreover have "\<bar>real_of_int n\<bar> < 2 ^ 53"
    proof -
      from assms have "real_of_int \<bar>n\<bar> < real_of_int (2 ^ 53)" by (simp only: of_int_less_iff)
      then show ?thesis by simp
    qed
    ultimately show False by simp
  qed
  have b: "binade (of_int n) = e" using e0 by (simp add: binade_def e_def)
  have q: "pow2 (e - 52) = 1 / 2 ^ nat (52 - e)"
  proof (cases "e = 52")
    case True
    then show ?thesis by (simp add: pow2_def)
  next
    case False
    with e52 have "e - 52 < 0" by simp
    then show ?thesis by (simp add: pow2_def)
  qed
  have "real_of_int n / pow2 (e - 52) = of_int (n * 2 ^ nat (52 - e))"
    by (simp add: q)
  then have "roundTiesToEven (real_of_int n / pow2 (e - 52)) = n * 2 ^ nat (52 - e)"
    by (simp only: roundTiesToEven_of_int)
  then show ?thesis using False by (simp add: double_def b q)
qed

section \<open>The offline renderer: results\<close>

subsection \<open>Rendering and concatenation\<close>










subsection \<open>Chunk starts and frame counts at the inputs\<close>

lemma double_numeral: "(numeral k :: int) < 2 ^ 53 \<Longrightarrow> double (numeral k) = numeral k"
  using double_int [of "numeral k"] by simp

lemma double_1: "double 1 = 1"
  using double_int [of 1] by simp

lemma effectiveRate_initial: "effectiveRate P initialState = 1"
  by (simp add: effectiveRate_def initialState_def Math_pow_def double_0 double_1)

lemma chunkStarts_two:
  assumes "60 < d" and "d \<le> 120"
  shows "chunkStarts d = Some [0, 60]"
proof -
  have "chunkStartsFrom 120 d = Some []"
    using assms by (subst chunkStartsFrom.simps) simp
  then have "chunkStartsFrom 60 d = Some [60]"
    using assms by (subst chunkStartsFrom.simps) (simp add: RENDER_CHUNK_SECONDS_def double_numeral)
  then have "chunkStartsFrom 0 d = Some [0, 60]"
    using assms by (subst chunkStartsFrom.simps) (simp add: RENDER_CHUNK_SECONDS_def double_numeral)
  then show ?thesis by (simp add: chunkStarts_def)
qed


lemma ninetySeconds_duration: "outputDuration P ninetySeconds initialState = 90"
  by (simp add: outputDuration_def effectiveRate_initial duration_def ninetySeconds_def
      double_numeral)





subsection \<open>Chunk frame counts\<close>


















subsection \<open>Chunking\<close>






subsection \<open>Output duration\<close>



subsection \<open>Failure of a chunk\<close>

lemma chunkStarts_90: "chunkStarts 90 = Some [0, 60]"
  by (rule chunkStarts_two) simp_all

text \<open>
  C4 at a failing input. The allocation of the first chunk's rendering context throws a
  \<open>RangeError\<close> with the message \<open>Array buffer allocation failed\<close>. The \<open>catch\<close> handler
  looks for \<open>RangeError\<close>, \<open>memory\<close> and \<open>allocate\<close> in the message of what was thrown: the
  name of the error is not in its message, and \<open>allocate\<close> is not a part of
  \<open>allocation\<close>. \<open>renderOffline\<close> rethrows the error as it is, not as the distinguished
  error with the hint.
\<close>

theorem out_of_memory_failing_input:
  "newOfflineAudioContext allocationFails (numberOfChannels ninetySeconds)
        (chunkFrames (outputDuration allocationFails ninetySeconds initialState)
           (sampleRate ninetySeconds) 0)
        (sampleRate ninetySeconds) = Some (ErrorObject ''RangeError'' ''Array buffer allocation failed'')
   \<and> renderOffline allocationFails ninetySeconds initialState
       = Some (Inl (ErrorObject ''RangeError'' ''Array buffer allocation failed''))
   \<and> renderOffline allocationFails ninetySeconds initialState \<noteq> Some (Inl outOfMemoryError)"
proof -
  have alloc: "newOfflineAudioContext allocationFails c n r
               = Some (ErrorObject ''RangeError'' ''Array buffer allocation failed'')" for c n r
    by (simp add: allocationFails_def quietPlatform_def)
  have "renderChunks allocationFails ninetySeconds initialState [0, 60]
        = Inl (ErrorObject ''RangeError'' ''Array buffer allocation failed'')"
    by (simp add: renderChunk_def alloc Let_def)
  then have body: "renderOfflineBody allocationFails ninetySeconds initialState
        = Some (Inl (ErrorObject ''RangeError'' ''Array buffer allocation failed''))"
    by (simp add: renderOfflineBody_def ninetySeconds_duration chunkStarts_90)
  have "catchHandler (ErrorObject ''RangeError'' ''Array buffer allocation failed'')
        = ErrorObject ''RangeError'' ''Array buffer allocation failed''"
    by (simp add: catchHandler_def stringIncludes_def catchMessage_def sublist_code)
  with body have "renderOffline allocationFails ninetySeconds initialState
       = Some (Inl (ErrorObject ''RangeError'' ''Array buffer allocation failed''))"
    by (simp add: renderOffline_def)
  then show ?thesis using alloc by (simp add: outOfMemoryError_def)
qed

section \<open>Truncation for the ID3v1 tag: results\<close>

lemma truncate_fits: "length (textEncode (truncateForId3v1 s m)) \<le> m"
proof (induction s m rule: truncateForId3v1.induct)
  case (1 s m)
  show ?case
  proof (cases "0 < length s \<and> m < length (textEncode s)")
    case True
    then show ?thesis using "1.IH" by (subst truncateForId3v1.simps) simp
  next
    case False
    then have "truncateForId3v1 s m = s" by (subst truncateForId3v1.simps) auto
    with False show ?thesis by (cases s) auto
  qed
qed

lemma truncate_prefix: "prefix (truncateForId3v1 s m) s"
proof (induction s m rule: truncateForId3v1.induct)
  case (1 s m)
  show ?case
  proof (cases "0 < length s \<and> m < length (textEncode s)")
    case True
    then have "prefix (truncateForId3v1 (butlast s) m) (butlast s)" using "1.IH" by simp
    moreover have "prefix (butlast s) s" by (rule prefixeq_butlast)
    ultimately have "prefix (truncateForId3v1 (butlast s) m) s" by (rule prefix_order.trans)
    with True show ?thesis by (subst truncateForId3v1.simps) simp
  next
    case False
    then show ?thesis by (subst truncateForId3v1.simps) auto
  qed
qed

lemma textEncode_noSurrogates:
  "noSurrogates s \<Longrightarrow> textEncode s = concat (map (\<lambda>u. utf8Bytes (unat u)) s)"
  by (induction s rule: textEncode.induct) (simp_all add: noSurrogates_def loneUnit_def)

lemma noSurrogates_prefix: "prefix p s \<Longrightarrow> noSurrogates s \<Longrightarrow> noSurrogates p"
  by (auto simp add: noSurrogates_def prefix_def)

lemma textEncode_prefix:
  assumes "prefix p s" and "noSurrogates s"
  shows "prefix (textEncode p) (textEncode s)"
proof -
  from assms(1) obtain r where s: "s = p @ r" by (auto simp add: prefix_def)
  have "textEncode s = concat (map (\<lambda>u. utf8Bytes (unat u)) s)"
    by (rule textEncode_noSurrogates [OF assms(2)])
  moreover have "textEncode p = concat (map (\<lambda>u. utf8Bytes (unat u)) p)"
    by (rule textEncode_noSurrogates [OF noSurrogates_prefix [OF assms]])
  ultimately show ?thesis by (simp add: s)
qed

lemma ascii_noSurrogates: "asciiOnly s \<Longrightarrow> noSurrogates s"
  by (fastforce simp add: asciiOnly_def noSurrogates_def isHighSurrogate_def isLowSurrogate_def
      word_le_nat_alt word_less_nat_alt)

lemma utf8Bytes_ascii: "u < 0x80 \<Longrightarrow> length (utf8Bytes (unat (u :: 16 word))) = 1"
proof -
  assume "u < 0x80"
  then have "unat u < 0x80" by (simp add: word_less_nat_alt)
  then show ?thesis by (simp add: utf8Bytes_def)
qed

lemma textEncode_ascii_length: "asciiOnly s \<Longrightarrow> length (textEncode s) = length s"
proof -
  assume a: "asciiOnly s"
  have "length (concat (map (\<lambda>u. utf8Bytes (unat u)) s)) = length s"
    using a by (induction s) (simp_all add: asciiOnly_def utf8Bytes_ascii)
  then show ?thesis by (simp add: textEncode_noSurrogates [OF ascii_noSurrogates [OF a]])
qed

lemma truncate_ascii: "asciiOnly s \<Longrightarrow> truncateForId3v1 s m = take m s"
proof (induction s m rule: truncateForId3v1.induct)
  case (1 s m)
  have len: "length (textEncode s) = length s"
    by (rule textEncode_ascii_length [OF "1.prems"])
  show ?case
  proof (cases "0 < length s \<and> m < length (textEncode s)")
    case True
    have "asciiOnly (butlast s)"
      using "1.prems" by (auto simp add: asciiOnly_def dest: in_set_butlastD)
    then have "truncateForId3v1 (butlast s) m = take m (butlast s)"
      using "1.IH" True by simp
    also have "\<dots> = take m s"
      using True len by (simp add: take_butlast)
    finally show ?thesis using True by (subst truncateForId3v1.simps) simp
  next
    case False
    then show ?thesis using len by (subst truncateForId3v1.simps) auto
  qed
qed

text \<open>
  C6, as amended. For every string the UTF-8 encoding of the result of
  \<open>truncateForId3v1\<close> has at most \<open>maxBytes\<close> bytes (30 for the text fields, 4 for the
  year), and the result is a prefix of the input's code units. A title of 40 ASCII
  characters is cut to its first 30 characters, 30 bytes. A string without surrogate
  code units is cut between characters: the encoding of the result is a prefix of the
  encoding of the input.
\<close>

theorem id3v1_truncation_amended:
  "length (textEncode (truncateForId3v1 s maxBytes)) \<le> maxBytes
   \<and> length (textEncode (truncateForId3v1 s ID3V1_MAX_BYTES)) \<le> 30
   \<and> length (textEncode (truncateForId3v1 s ID3V1_YEAR_MAX_BYTES)) \<le> 4
   \<and> prefix (truncateForId3v1 s maxBytes) s
   \<and> (length s = 40 \<and> asciiOnly s \<longrightarrow>
        truncateForId3v1 s ID3V1_MAX_BYTES = take 30 s
        \<and> length (textEncode (truncateForId3v1 s ID3V1_MAX_BYTES)) = 30)
   \<and> (noSurrogates s \<longrightarrow>
        noSurrogates (truncateForId3v1 s maxBytes)
        \<and> prefix (textEncode (truncateForId3v1 s maxBytes)) (textEncode s))"
proof -
  have a: "truncateForId3v1 s ID3V1_MAX_BYTES = take 30 s
           \<and> length (textEncode (truncateForId3v1 s ID3V1_MAX_BYTES)) = 30"
    if "length s = 40 \<and> asciiOnly s"
  proof -
    from that have t: "truncateForId3v1 s ID3V1_MAX_BYTES = take 30 s"
      by (simp add: truncate_ascii ID3V1_MAX_BYTES_def)
    from that have "asciiOnly (take 30 s)"
      by (auto simp add: asciiOnly_def dest: in_set_takeD)
    then have "length (textEncode (take 30 s)) = length (take 30 s)"
      by (rule textEncode_ascii_length)
    with t that show ?thesis by simp
  qed
  have b: "noSurrogates (truncateForId3v1 s maxBytes)
           \<and> prefix (textEncode (truncateForId3v1 s maxBytes)) (textEncode s)"
    if "noSurrogates s"
    using that textEncode_prefix [OF truncate_prefix that, of maxBytes]
      noSurrogates_prefix [OF truncate_prefix that, of maxBytes] by simp
  have c: "length (textEncode (truncateForId3v1 s ID3V1_MAX_BYTES)) \<le> 30"
    "length (textEncode (truncateForId3v1 s ID3V1_YEAR_MAX_BYTES)) \<le> 4"
    using truncate_fits [of s ID3V1_MAX_BYTES] truncate_fits [of s ID3V1_YEAR_MAX_BYTES]
    by (simp_all add: ID3V1_MAX_BYTES_def ID3V1_YEAR_MAX_BYTES_def)
  show ?thesis
    using truncate_fits [of s maxBytes] c truncate_prefix [of s maxBytes] a b
    by blast
qed

lemma pair_bytes: "textEncode [0xD83D, 0xDE00] = [0xF0, 0x9F, 0x98, 0x80]"
  by (simp add: isHighSurrogate_def isLowSurrogate_def utf8Bytes_def)

lemma lone_bytes: "textEncode [0xD83D] = [0xEF, 0xBF, 0xBD]"
  by (simp add: isHighSurrogate_def isLowSurrogate_def utf8Bytes_def loneUnit_def)

lemma textEncode_append:
  "noSurrogates s \<Longrightarrow> textEncode (s @ r) = textEncode s @ textEncode r"
proof (induction s)
  case Nil
  then show ?case by simp
next
  case (Cons u s)
  then have u: "\<not> isHighSurrogate u" and s: "noSurrogates s"
    by (simp_all add: noSurrogates_def)
  show ?case
  proof (cases "s @ r")
    case Nil
    then show ?thesis by simp
  next
    case (Cons l rest)
    then have "textEncode ((u # s) @ r) = utf8Bytes (loneUnit u) @ textEncode (s @ r)"
      using u by simp
    then have "textEncode ((u # s) @ r) = utf8Bytes (loneUnit u) @ textEncode s @ textEncode r"
      using Cons.IH [OF s] by simp
    moreover have "utf8Bytes (loneUnit u) @ textEncode s = textEncode (u # s)"
      using u by (cases s) simp_all
    ultimately show ?thesis by simp
  qed
qed

lemma ascii_replicate: "asciiOnly (replicate n 0x61)"
  by (simp add: asciiOnly_def)

lemma emoji_truncated: "truncateForId3v1 emojiTitle 30 = replicate 27 0x61 @ [0xD83D]"
proof -
  have a: "noSurrogates (replicate 27 0x61)"
    by (rule ascii_noSurrogates [OF ascii_replicate])
  have la: "length (textEncode (replicate 27 0x61)) = 27"
    using textEncode_ascii_length [OF ascii_replicate, of 27] by simp
  have full: "length (textEncode emojiTitle) = 31"
    by (simp add: emojiTitle_def textEncode_append [OF a] la pair_bytes del: textEncode.simps)
  have cut: "length (textEncode (replicate 27 0x61 @ [0xD83D])) = 30"
    by (simp add: textEncode_append [OF a] la lone_bytes del: textEncode.simps)
  have "truncateForId3v1 (replicate 27 0x61 @ [0xD83D]) 30 = replicate 27 0x61 @ [0xD83D]"
    by (subst truncateForId3v1.simps) (simp only: cut, simp)
  moreover have "butlast emojiTitle = replicate 27 0x61 @ [0xD83D]"
    by (simp add: emojiTitle_def butlast_append)
  moreover have "0 < length emojiTitle" by (simp add: emojiTitle_def)
  ultimately show ?thesis
    using full by (subst truncateForId3v1.simps) simp
qed

text \<open>
  C6 as stated fails: the title of 27 letters and \<open>U+1F600\<close> (31 bytes) is cut after
  the high surrogate of the pair. The result ends in a lone surrogate, which encodes as
  the replacement character, and its encoding is no prefix of the input's.
\<close>

theorem id3v1_truncation_counterexample:
  "truncateForId3v1 emojiTitle ID3V1_MAX_BYTES = replicate 27 0x61 @ [0xD83D]
   \<and> isHighSurrogate (last (truncateForId3v1 emojiTitle ID3V1_MAX_BYTES))
   \<and> textEncode emojiTitle = textEncode (replicate 27 0x61) @ [0xF0, 0x9F, 0x98, 0x80]
   \<and> textEncode (truncateForId3v1 emojiTitle ID3V1_MAX_BYTES)
       = textEncode (replicate 27 0x61) @ [0xEF, 0xBF, 0xBD]
   \<and> \<not> prefix (textEncode (truncateForId3v1 emojiTitle ID3V1_MAX_BYTES)) (textEncode emojiTitle)"
proof -
  have a: "noSurrogates (replicate 27 0x61)"
    by (rule ascii_noSurrogates [OF ascii_replicate])
  have tr: "truncateForId3v1 emojiTitle ID3V1_MAX_BYTES = replicate 27 0x61 @ [0xD83D]"
    by (simp add: ID3V1_MAX_BYTES_def emoji_truncated)
  have hi: "isHighSurrogate (last (replicate 27 0x61 @ [0xD83D]))"
    by (simp add: isHighSurrogate_def)
  have full: "textEncode emojiTitle = textEncode (replicate 27 0x61) @ [0xF0, 0x9F, 0x98, 0x80]"
    by (simp add: emojiTitle_def textEncode_append [OF a] pair_bytes del: textEncode.simps)
  have cut: "textEncode (replicate 27 0x61 @ [0xD83D])
             = textEncode (replicate 27 0x61) @ [0xEF, 0xBF, 0xBD]"
    by (simp add: textEncode_append [OF a] lone_bytes del: textEncode.simps)
  have "\<not> prefix (textEncode (replicate 27 0x61) @ [0xEF, 0xBF, 0xBD :: 8 word])
                  (textEncode (replicate 27 0x61) @ [0xF0, 0x9F, 0x98, 0x80])"
    by simp
  then show ?thesis
    by (simp only: tr hi full cut) simp
qed

text \<open>The amended C6 at 40 letters \<open>a\<close> and at 20 letters \<open>U+00E9\<close> (two bytes each).\<close>

theorem id3v1_truncation_amended_witness:
  "length (replicate 40 (0x61 :: 16 word)) = 40 \<and> asciiOnly (replicate 40 0x61)
   \<and> truncateForId3v1 (replicate 40 0x61) ID3V1_MAX_BYTES = replicate 30 0x61
   \<and> length (textEncode (truncateForId3v1 (replicate 40 0x61) ID3V1_MAX_BYTES)) = 30
   \<and> noSurrogates (replicate 20 0xE9)
   \<and> length (textEncode (truncateForId3v1 (replicate 20 0xE9) ID3V1_MAX_BYTES)) \<le> 30
   \<and> prefix (textEncode (truncateForId3v1 (replicate 20 0xE9) ID3V1_MAX_BYTES))
        (textEncode (replicate 20 0xE9))"
proof -
  have n: "noSurrogates (replicate 20 0xE9)"
    by (simp add: noSurrogates_def isHighSurrogate_def isLowSurrogate_def)
  show ?thesis
    using id3v1_truncation_amended [of "replicate 40 0x61" 30]
      id3v1_truncation_amended [of "replicate 20 0xE9" 30] ascii_replicate [of 40] n
      textEncode_ascii_length [OF ascii_replicate, of 30]
    by (simp add: ID3V1_MAX_BYTES_def)
qed

section \<open>The tempo estimator: results\<close>





lemma bestSoFar_Suc:
  "bestSoFar hist (Suc k) =
     (if snd (bestSoFar hist k) < hist ! k then (k, hist ! k) else bestSoFar hist k)"
  by (simp add: bestSoFar_def split_beta)




subsection \<open>Silent buffers\<close>

lemma MAX_SAMPLES_value: "MAX_SAMPLES = 2646000"
  by (simp add: MAX_SAMPLES_def)





lemma findBestBin_empty:
  assumes "\<And>j. j < numBins \<Longrightarrow> hist ! j = 0"
  shows "findBestBin hist = 0"
proof -
  have "k \<le> numBins \<Longrightarrow> bestSoFar hist k = (0, 0)" for k
  proof (induction k)
    case 0
    show ?case by (simp add: bestSoFar_def)
  next
    case (Suc k)
    then show ?case using assms [of k] by (simp add: bestSoFar_Suc)
  qed
  then show ?thesis by (simp add: findBestBin_def bestSoFar_def [symmetric])
qed




lemma histogram_empty:
  assumes "\<And>dt. dt \<in> set intervals \<Longrightarrow> dt * 1000 < minPeriodMs"
  shows "intervalHistogram intervals = replicate numBins 0"
proof -
  have "fold (\<lambda>dt hist.
             let ms = dt * 1000
             in if ms < minPeriodMs \<or> maxPeriodMs < ms then hist
                else (let bin = \<lfloor>(ms - minPeriodMs) / binMs\<rfloor>
                      in if 0 \<le> bin \<and> bin < int numBins
                         then hist[nat bin := hist ! nat bin + 1]
                         else hist)) intervals h = h" for h :: "nat list"
    using assms by (induction intervals arbitrary: h) (simp_all add: Let_def)
  then show ?thesis by (simp add: intervalHistogram_def)
qed

lemma bpmOfBin_0: "bpmOfBin 0 = 194"
proof -
  have p: "periodOfBin 0 = 310"
    by (simp add: periodOfBin_def minPeriodMs_def binMs_def MAX_BPM_def)
  have "round (60000 / 310 :: real) = 194"
    by (rule round_unique) simp_all
  then show ?thesis
    by (simp add: bpmOfBin_def p octaveCorrect_def MIN_BPM_def MAX_BPM_def Let_def)
qed





subsection \<open>Unknown results\<close>




subsection \<open>A click track\<close>

lemma getMonoSamples_clickTrack:
  "getMonoSamples P clickTrack MAX_SAMPLES = Inr (channel clickTrack 0)"
  by (simp add: getMonoSamples_def getChannelData_def channel_def clickTrack_def
      MAX_SAMPLES_value Let_def)

lemma length_clickTrack: "length (channel clickTrack 0) = 45056"
  by (simp add: channel_def clickTrack_def)

lemma nth_clickTrack:
  "i < 45056 \<Longrightarrow>
   channel clickTrack 0 ! i = (if i mod 1024 < clickBlocks ! ((i div 1024) mod 10) then 1 else 0)"
  by (simp add: channel_def clickTrack_def)

lemma fold_sum:
  "fold (\<lambda>i (s :: real). s + g i) [0..<n] a = a + sum g {..<n}"
  by (induction n) simp_all

lemma clickBlocks_bound: "clickBlocks ! (k mod 10) \<le> 1024"
proof -
  have "clickBlocks ! (k mod 10) \<in> set clickBlocks"
    by (rule nth_mem) (simp add: clickBlocks_def)
  then show ?thesis by (auto simp add: clickBlocks_def)
qed

lemma ones_sum: "m \<le> n \<Longrightarrow> (\<Sum>i<n. if i < m then 1 else 0 :: real) = real m"
proof -
  assume m: "m \<le> n"
  have "{..<n} \<inter> {i. i < m} = {..<m}" using m by auto
  then show ?thesis by (simp add: sum.If_cases)
qed

lemma block_sum:
  assumes "k < 44"
  shows "(\<Sum>i<1024. channel clickTrack 0 ! (k * 1024 + i) * channel clickTrack 0 ! (k * 1024 + i))
         = real (clickBlocks ! (k mod 10))"
proof -
  have "channel clickTrack 0 ! (k * 1024 + i) * channel clickTrack 0 ! (k * 1024 + i)
        = (if i < clickBlocks ! (k mod 10) then 1 else 0)" if "i < 1024" for i
  proof -
    from that assms have "k * 1024 + i < 45056" by simp
    then show ?thesis using that by (simp add: nth_clickTrack)
  qed
  then have "(\<Sum>i<1024. channel clickTrack 0 ! (k * 1024 + i) * channel clickTrack 0 ! (k * 1024 + i))
             = (\<Sum>i<1024. if i < clickBlocks ! (k mod 10) then 1 else 0 :: real)"
    by (intro sum.cong) simp_all
  then show ?thesis using ones_sum [OF clickBlocks_bound, of k] by simp
qed

lemma sum_split:
  fixes m n :: nat and g :: "nat \<Rightarrow> real"
  shows "(\<Sum>i<m + n. g i) = (\<Sum>i<m. g i) + (\<Sum>i<n. g (m + i))"
  by (induction n) (simp_all add: add.assoc [symmetric])

lemma frame_sum:
  assumes "f < 43"
  shows "(\<Sum>i<2048. channel clickTrack 0 ! (f * 1024 + i) * channel clickTrack 0 ! (f * 1024 + i))
         = real (clickBlocks ! (f mod 10) + clickBlocks ! (Suc f mod 10))"
proof -
  let ?g = "\<lambda>j. channel clickTrack 0 ! j * channel clickTrack 0 ! j"
  have "(\<Sum>i<2048. ?g (f * 1024 + i)) = (\<Sum>i<1024 + 1024. ?g (f * 1024 + i))" by simp
  also have "\<dots> = (\<Sum>i<1024. ?g (f * 1024 + i)) + (\<Sum>i<1024. ?g (f * 1024 + (1024 + i)))"
    using sum_split [of "\<lambda>i. ?g (f * 1024 + i)" 1024 1024] by simp
  also have "(\<Sum>i<1024. ?g (f * 1024 + (1024 + i))) = (\<Sum>i<1024. ?g (Suc f * 1024 + i))"
    by (simp add: ac_simps)
  finally show ?thesis
    using block_sum [of f] block_sum [of "Suc f"] assms by simp
qed

lemma click_sqrts:
  "sqrt (49 / 1024) = 7 / 32" "sqrt (1 / 16) = 1 / 4" "sqrt (1 / 64) = 1 / 8"
  "sqrt (1 / 1024) = 1 / 32"
  by (rule real_sqrt_unique, simp add: power2_eq_square, simp)+

lemma residues: "j < 10 \<Longrightarrow> j = 0 \<or> j = 1 \<or> j = 2 \<or> j = 3 \<or> j = 4 \<or> j = 5 \<or> j = 6 \<or> j = 7 \<or> j = 8 \<or> j = (9::nat)"
  by arith

lemma energy_residue:
  assumes "j < 10"
  shows "sqrt (real (clickBlocks ! j + clickBlocks ! (Suc j mod 10)) / 2048) = clickEnergy ! j"
  using residues [OF assms]
  by (elim disjE) (simp_all add: clickBlocks_def clickEnergy_def click_sqrts)

lemma frame_energy:
  assumes "f < 43"
  shows "sqrt (fold (\<lambda>i sum. sum + channel clickTrack 0 ! (f * HOP_LEN + i)
                                   * channel clickTrack 0 ! (f * HOP_LEN + i))
                 [0..<FRAME_LEN] 0 / real FRAME_LEN) = clickEnergy ! (f mod 10)"
proof -
  have "Suc f mod 10 = Suc (f mod 10) mod 10" by (simp add: mod_Suc_eq)
  then show ?thesis
    using energy_residue [of "f mod 10"] frame_sum [OF assms]
    by (simp add: fold_sum HOP_LEN_def FRAME_LEN_def)
qed

lemma frameEnergy_clickTrack:
  "frameEnergy (channel clickTrack 0) = map (\<lambda>f. clickEnergy ! (f mod 10)) [0..<43]"
proof -
  have n: "(length (channel clickTrack 0) - FRAME_LEN) div HOP_LEN + 1 = 43"
    by (simp add: length_clickTrack FRAME_LEN_def HOP_LEN_def)
  show ?thesis
    unfolding frameEnergy_def Let_def n
    by (rule map_cong [OF refl]) (simp add: frame_energy)
qed

lemma energies_clickTrack:
  "frameEnergy (channel clickTrack 0) = [7/32, 1/4, 1/8, 1/32, 1/32, 1/32, 1/32, 1/32, 1/32, 1/32, 7/32, 1/4, 1/8, 1/32, 1/32, 1/32, 1/32, 1/32, 1/32, 1/32, 7/32, 1/4, 1/8, 1/32, 1/32, 1/32, 1/32, 1/32, 1/32, 1/32, 7/32, 1/4, 1/8, 1/32, 1/32, 1/32, 1/32, 1/32, 1/32, 1/32, 7/32, 1/4, 1/8]"
  by (simp add: frameEnergy_clickTrack upt_rec clickEnergy_def)

lemma onsets_clickTrack: "onsetStrength (frameEnergy (channel clickTrack 0)) = clickOnsets"
  by (simp add: energies_clickTrack onsetStrength_def upt_rec clickOnsets_def Let_def)

lemma threshold_clickOnsets:
  "sort clickOnsets ! nat \<lfloor>real (length clickOnsets - 1) * PEAK_THRESHOLD_PERCENTILE\<rfloor> = 1 / 32"
  by (simp add: clickOnsets_def PEAK_THRESHOLD_PERCENTILE_def)

lemma pickPeaks_clickOnsets: "pickPeaks clickOnsets = [10, 20, 30, 40]"
proof -
  have len: "length clickOnsets - 2 = 41" by (simp add: clickOnsets_def)
  show ?thesis
    unfolding pickPeaks_def Let_def threshold_clickOnsets len
    by (simp add: clickOnsets_def upt_rec)
qed

lemma intervals_clickTrack:
  "interOnsetIntervals 44100 [10, 20, 30, 40] = [10240 / 44100, 10240 / 44100, 10240 / 44100]"
proof -
  have u: "[1..<4] = [1, 2, 3 :: nat]" by (simp add: upt_rec)
  show ?thesis
    by (simp add: interOnsetIntervals_def HOP_LEN_def Let_def u)
qed

subsection \<open>The empty histogram\<close>

lemma sampleRate_clickTrack: "sampleRate clickTrack = 44100"
  by (simp add: clickTrack_def)

lemma empty_histogram_result:
  assumes "getMonoSamples P b MAX_SAMPLES = Inr monoData"
    and "FRAME_LEN * 2 \<le> length monoData"
    and "4 \<le> length (pickPeaks (onsetStrength (frameEnergy monoData)))"
    and "2 \<le> length (interOnsetIntervals (sampleRate b)
                    (pickPeaks (onsetStrength (frameEnergy monoData))))"
    and "\<forall>j < numBins. onsetHistogram (sampleRate b) monoData ! j = 0"
  shows "detectBPM P b = Some 194
       \<and> findBestBin (onsetHistogram (sampleRate b) monoData) = 0
       \<and> periodOfBin 0 = 310
       \<and> round (60000 / periodOfBin 0) = 194"
proof -
  have f: "findBestBin (onsetHistogram (sampleRate b) monoData) = 0"
    using assms(5) by (intro findBestBin_empty) simp
  have q: "periodOfBin 0 = 310"
    by (simp add: periodOfBin_def minPeriodMs_def binMs_def MAX_BPM_def)
  have r: "round (60000 / 310 :: real) = 194"
    by (rule round_unique) simp_all
  have "detectBPMInner P b
        = Inr (Some (bpmOfBin (findBestBin (onsetHistogram (sampleRate b) monoData))))"
    using assms(1-4) by (simp add: detectBPMInner_def onsetHistogram_def Let_def not_less [symmetric])
  then have "detectBPM P b = Some 194"
    by (simp add: detectBPM_def f bpmOfBin_0)
  with f q r show ?thesis by simp
qed


lemma clickTrack_peaks:
  "pickPeaks (onsetStrength (frameEnergy (channel clickTrack 0))) = [10, 20, 30, 40]"
  by (simp only: onsets_clickTrack pickPeaks_clickOnsets)

lemma clickTrack_intervals:
  "interOnsetIntervals (sampleRate clickTrack) [10, 20, 30, 40]
   = [10240 / 44100, 10240 / 44100, 10240 / 44100]"
  by (simp only: sampleRate_clickTrack intervals_clickTrack)

lemma clickTrack_histogram:
  "onsetHistogram (sampleRate clickTrack) (channel clickTrack 0) = replicate numBins 0"
  unfolding onsetHistogram_def clickTrack_peaks clickTrack_intervals
  by (rule histogram_empty) (auto simp add: minPeriodMs_def MAX_BPM_def)

lemma clickTrack_guards:
  "FRAME_LEN * 2 \<le> length (channel clickTrack 0)"
  "4 \<le> length (pickPeaks (onsetStrength (frameEnergy (channel clickTrack 0))))"
  "2 \<le> length (interOnsetIntervals (sampleRate clickTrack)
              (pickPeaks (onsetStrength (frameEnergy (channel clickTrack 0)))))"
  "\<forall>j < numBins. onsetHistogram (sampleRate clickTrack) (channel clickTrack 0) ! j = 0"
proof -
  show "FRAME_LEN * 2 \<le> length (channel clickTrack 0)"
    by (simp add: length_clickTrack FRAME_LEN_def)
  show "4 \<le> length (pickPeaks (onsetStrength (frameEnergy (channel clickTrack 0))))"
    by (simp add: clickTrack_peaks)
  show "2 \<le> length (interOnsetIntervals (sampleRate clickTrack)
              (pickPeaks (onsetStrength (frameEnergy (channel clickTrack 0)))))"
    by (simp only: clickTrack_peaks clickTrack_intervals) simp
  show "\<forall>j < numBins. onsetHistogram (sampleRate clickTrack) (channel clickTrack 0) ! j = 0"
    by (simp add: clickTrack_histogram)
qed


text \<open>
  C10. When \<open>detectBPMInner\<close> gets past its three guards (at least \<open>2 * 2048\<close> mono
  samples, at least 4 peaks, at least 2 kept intervals) and the histogram receives no
  entry, \<open>detectBPM\<close> does not return \<open>null\<close>: the best bin stays at its initial value 0,
  whose centre period is 310 ms, and the result is \<open>round(60000 / 310) = 194\<close>.
\<close>

theorem empty_histogram_gives_194:
  assumes "getMonoSamples P b MAX_SAMPLES = Inr monoData"
    and "FRAME_LEN * 2 \<le> length monoData"
    and "4 \<le> length (pickPeaks (onsetStrength (frameEnergy monoData)))"
    and "2 \<le> length (interOnsetIntervals (sampleRate b)
                    (pickPeaks (onsetStrength (frameEnergy monoData))))"
    and "\<forall>j < numBins. onsetHistogram (sampleRate b) monoData ! j = 0"
  shows "detectBPM P b = Some 194
       \<and> findBestBin (onsetHistogram (sampleRate b) monoData) = 0
       \<and> periodOfBin 0 = 310
       \<and> round (60000 / periodOfBin 0) = 194"
  using assms by (rule empty_histogram_result)

text \<open>
  C10 at such an input: the click track has the 4 peaks 10, 20, 30 and 40, its 3
  intervals of 0.232 s are kept but lie below the 300 ms of the first bin, and
  \<open>detectBPM\<close> returns 194.
\<close>

theorem empty_histogram_gives_194_witness:
  "getMonoSamples quietPlatform clickTrack MAX_SAMPLES = Inr (channel clickTrack 0)
   \<and> FRAME_LEN * 2 \<le> length (channel clickTrack 0)
   \<and> pickPeaks (onsetStrength (frameEnergy (channel clickTrack 0))) = [10, 20, 30, 40]
   \<and> interOnsetIntervals (sampleRate clickTrack) [10, 20, 30, 40]
       = [10240 / 44100, 10240 / 44100, 10240 / 44100]
   \<and> (0.2 :: real) \<le> 10240 / 44100 \<and> (10240 / 44100 :: real) < 0.3
   \<and> onsetHistogram (sampleRate clickTrack) (channel clickTrack 0) = replicate numBins 0
   \<and> detectBPM quietPlatform clickTrack = Some 194"
  using empty_histogram_gives_194 [OF getMonoSamples_clickTrack clickTrack_guards, of quietPlatform]
    getMonoSamples_clickTrack [of quietPlatform] clickTrack_guards(1) clickTrack_peaks
    clickTrack_intervals clickTrack_histogram
  by simp

subsection \<open>Octave correction and range\<close>



end
